theory Spec2Isabelle
  imports Complex_Main
begin

section \<open>The portfolio slider of \<open>PortfolioApp\<close>\<close>

text \<open>
  The slider lives in the class \<open>PortfolioApp\<close> of the main JavaScript module: the
  fields \<open>currentSlide\<close>, \<open>totalSlides\<close> and \<open>isAnimating\<close>, the methods
  \<open>nextSlide\<close>, \<open>previousSlide\<close>, \<open>goToSlide\<close> and \<open>updateSliderPosition\<close>, and
  the event handlers that \<open>setupTouchNavigation\<close> registers, which share the local
  variables of that method through their closures.

  Numbers. Slide indices and the slide count are JavaScript integers and are modelled as
  \<open>int\<close>. Pointer coordinates, the container width and the percentage written into
  \<open>style.transform\<close> are modelled as \<open>real\<close>: the model is exact arithmetic, it does
  not round as IEEE doubles do. \<open>Date.now()\<close> is an integer number of milliseconds and is
  passed to every handler that reads the clock as the argument \<open>now\<close>.
\<close>

subsection \<open>State\<close>

datatype cursor = Grab | Grabbing

record app =
  currentSlide :: int          \<comment> \<open>\<open>this.currentSlide\<close>\<close>
  totalSlides :: int           \<comment> \<open>\<open>this.totalSlides\<close>\<close>
  isAnimating :: bool          \<comment> \<open>\<open>this.isAnimating\<close>\<close>
  trackPresent :: bool         \<comment> \<open>\<open>document.getElementById('sliderTrack')\<close> is not null\<close>
  transform :: real            \<comment> \<open>\<open>v\<close> of \<open>sliderTrack.style.transform = translateX(v%)\<close>\<close>
  transitionOn :: bool         \<comment> \<open>\<open>sliderTrack.style.transition\<close> is not \<open>'none'\<close>\<close>
  cursorStyle :: cursor        \<comment> \<open>\<open>sliderContainer.style.cursor\<close>\<close>
  offsetWidth :: real          \<comment> \<open>\<open>sliderContainer.offsetWidth\<close>, read live\<close>
  timers :: "int list"         \<comment> \<open>due times of the pending \<open>setTimeout\<close> callbacks\<close>
  startX :: real
  startY :: real
  currentX :: real
  currentY :: real
  isDragging :: bool
  startTime :: int
  isMobile :: bool
  initialTransform :: real
  isHorizontalSwipe :: bool

subsection \<open>Navigation methods\<close>

text \<open>
  JavaScript's \<open>%\<close> takes the sign of the dividend. \<open>nextSlide\<close> only evaluates it
  behind the guard \<open>totalSlides === 0\<close>, so the divisor is never zero there.
\<close>

definition js_rem :: "int \<Rightarrow> int \<Rightarrow> int" where
  "js_rem a b = sgn a * (\<bar>a\<bar> mod \<bar>b\<bar>)"

text \<open>
  \<open>updateSliderPosition\<close>: returns at once when the track element is missing; otherwise
  sets the flag, writes the base offset of the current slide and schedules the callback
  that clears the flag 500 ms later. The indicator classes it toggles are presentation
  only and are not modelled. No pending callback is ever cancelled.
\<close>

definition updateSliderPosition :: "int \<Rightarrow> app \<Rightarrow> app" where
  "updateSliderPosition now s =
     (if \<not> trackPresent s then s
      else s\<lparr>isAnimating := True,
             transform := - (of_int (currentSlide s)) * 100,
             timers := timers s @ [now + 500]\<rparr>)"

definition nextSlide :: "int \<Rightarrow> app \<Rightarrow> app" where
  "nextSlide now s =
     (if isAnimating s \<or> totalSlides s = 0 then s
      else updateSliderPosition now
             (s\<lparr>currentSlide := js_rem (currentSlide s + 1) (totalSlides s)\<rparr>))"

definition previousSlide :: "int \<Rightarrow> app \<Rightarrow> app" where
  "previousSlide now s =
     (if isAnimating s \<or> totalSlides s = 0 then s
      else updateSliderPosition now
             (s\<lparr>currentSlide :=
                  (if currentSlide s = 0 then totalSlides s - 1 else currentSlide s - 1)\<rparr>))"

definition goToSlide :: "int \<Rightarrow> int \<Rightarrow> app \<Rightarrow> app" where
  "goToSlide now slideIndex s =
     (if isAnimating s \<or> totalSlides s = 0 \<or> slideIndex = currentSlide s then s
      else updateSliderPosition now (s\<lparr>currentSlide := slideIndex\<rparr>))"

text \<open>The body of the \<open>setTimeout\<close> callback of \<open>updateSliderPosition\<close>.\<close>

definition lockRelease :: "app \<Rightarrow> app" where
  "lockRelease s = s\<lparr>isAnimating := False\<rparr>"

text \<open>
  The clock reaches \<open>now\<close>: every pending callback that is due has run (each one only
  clears the flag) and is removed from the pending list.
\<close>

definition fireTimers :: "int \<Rightarrow> app \<Rightarrow> app" where
  "fireTimers now s =
     (if list_ex (\<lambda>d. d \<le> now) (timers s)
      then (lockRelease s)\<lparr>timers := filter (\<lambda>d. now < d) (timers s)\<rparr>
      else s)"

subsection \<open>Boundary resistance and the release decision\<close>

text \<open>
  The block \<open>let resistanceTransform = newTransform; ...\<close> that \<open>touchmove\<close> (factor
  0.3) and \<open>mousemove\<close> (factor 0.2) both contain. The upper bound is tested first.
\<close>

definition resistanceTransform :: "real \<Rightarrow> real \<Rightarrow> int \<Rightarrow> real" where
  "resistanceTransform factor newTransform slides =
     (let maxTransform = 0;
          minTransform = - (of_int (slides - 1)) * 100
      in if newTransform > maxTransform
         then maxTransform + (newTransform - maxTransform) * factor
         else if newTransform < minTransform
         then minTransform + (newTransform - minTransform) * factor
         else newTransform)"

text \<open>
  \<open>velocity > minVelocity\<close> with \<open>velocity = Math.abs(diffX) / diffTime\<close>. When
  \<open>diffTime\<close> is 0 JavaScript yields \<open>Infinity\<close> for a positive numerator (the test
  succeeds) and \<open>NaN\<close> for 0 / 0 (the test fails); HOL's \<open>x / 0 = 0\<close> is not used.
\<close>

definition velocityExceeds :: "real \<Rightarrow> int \<Rightarrow> real \<Rightarrow> bool" where
  "velocityExceeds absX diffTime minVelocity =
     (if diffTime = 0 then absX > 0 else absX / of_int diffTime > minVelocity)"

text \<open>
  The pair \<open>(shouldChangeSlide, direction)\<close> that \<open>touchend\<close> (threshold 50, minimal
  velocity 0.3, minimal distance 20) and \<open>mouseup\<close> (80, 0.5, 30) compute.
\<close>

definition swipeDecision :: "real \<Rightarrow> real \<Rightarrow> real \<Rightarrow> real \<Rightarrow> int \<Rightarrow> bool \<times> int" where
  "swipeDecision threshold minVelocity minDistance diffX diffTime =
     (if \<bar>diffX\<bar> > threshold
      then (True, if diffX > 0 then - 1 else 1)
      else if velocityExceeds \<bar>diffX\<bar> diffTime minVelocity \<and> \<bar>diffX\<bar> > minDistance
      then (True, if diffX > 0 then - 1 else 1)
      else (False, 0))"

subsection \<open>Touch handlers\<close>

text \<open>
  A touch event carries the list \<open>e.touches\<close> of contact points \<open>(clientX, clientY)\<close>.
  \<open>preventDefault\<close> has no effect on the state of the slider and is not modelled.
  Percentages divide by \<open>offsetWidth\<close>; theorems that depend on the quotient assume a
  positive width.
\<close>

definition touchstart :: "int \<Rightarrow> (real \<times> real) list \<Rightarrow> app \<Rightarrow> app" where
  "touchstart now touches s =
     (case touches of
        [(x, y)] \<Rightarrow>
          s\<lparr>startX := x, startY := y, currentX := x, currentY := y,
            startTime := now, isDragging := False, isHorizontalSwipe := False,
            initialTransform := - (of_int (currentSlide s)) * 100\<rparr>
      | _ \<Rightarrow> s)"

text \<open>
  The block of \<open>touchmove\<close> under the comment ``Determine if this is a horizontal
  swipe'': it runs while neither flag is set, and it records a decision only in
  \<open>isHorizontalSwipe\<close> (and \<open>isDragging\<close> when the decision is horizontal).
\<close>

definition classify :: "real \<Rightarrow> real \<Rightarrow> app \<Rightarrow> app" where
  "classify diffX diffY s =
     (if \<not> isDragging s \<and> \<not> isHorizontalSwipe s
      then (let absX = \<bar>diffX\<bar>; absY = \<bar>diffY\<bar>
            in if absX > 10 \<or> absY > 10
               then (let s' = s\<lparr>isHorizontalSwipe := (absX > absY \<and> absX > 15)\<rparr>
                     in if isHorizontalSwipe s'
                        then s'\<lparr>isDragging := True, transitionOn := False\<rparr>
                        else s')
               else s)
      else s)"

definition touchmove :: "(real \<times> real) list \<Rightarrow> app \<Rightarrow> app" where
  "touchmove touches s =
     (case touches of
        [(x, y)] \<Rightarrow>
          (let s1 = s\<lparr>currentX := x, currentY := y\<rparr>;
               diffX = currentX s1 - startX s1;
               diffY = currentY s1 - startY s1;
               s2 = classify diffX diffY s1
           in if isDragging s2 \<and> isHorizontalSwipe s2
              then (let dragOffset = (diffX / offsetWidth s2) * 100;
                        newTransform = initialTransform s2 + dragOffset
                    in s2\<lparr>transform := resistanceTransform 0.3 newTransform (totalSlides s2)\<rparr>)
              else s2)
      | _ \<Rightarrow> s)"

definition touchend :: "int \<Rightarrow> app \<Rightarrow> app" where
  "touchend now s =
     (if \<not> isDragging s \<or> \<not> isHorizontalSwipe s
      then s\<lparr>isDragging := False, isHorizontalSwipe := False\<rparr>
      else (let diffX = currentX s - startX s;
                diffTime = now - startTime s;
                d = swipeDecision 50 0.3 20 diffX diffTime;
                s1 = s\<lparr>transitionOn := True\<rparr>;
                s2 = (if fst d
                      then (if snd d > 0 then nextSlide now s1 else previousSlide now s1)
                      else updateSliderPosition now s1)
            in s2\<lparr>isDragging := False, isHorizontalSwipe := False\<rparr>))"

subsection \<open>Mouse handlers\<close>

definition mousedown :: "int \<Rightarrow> real \<Rightarrow> app \<Rightarrow> app" where
  "mousedown now x s =
     (if isMobile s then s
      else s\<lparr>startX := x, startTime := now, isDragging := True,
             initialTransform := - (of_int (currentSlide s)) * 100,
             cursorStyle := Grabbing, transitionOn := False\<rparr>)"

definition mousemove :: "real \<Rightarrow> app \<Rightarrow> app" where
  "mousemove x s =
     (if \<not> isDragging s \<or> isMobile s then s
      else (let s1 = s\<lparr>currentX := x\<rparr>;
                diffX = currentX s1 - startX s1
            in if \<bar>diffX\<bar> > 5
               then (let dragOffset = (diffX / offsetWidth s1) * 100;
                         newTransform = initialTransform s1 + dragOffset
                     in s1\<lparr>transform := resistanceTransform 0.2 newTransform (totalSlides s1)\<rparr>)
               else s1))"

definition mouseup :: "int \<Rightarrow> app \<Rightarrow> app" where
  "mouseup now s =
     (if \<not> isDragging s \<or> isMobile s then s
      else (let diffX = currentX s - startX s;
                diffTime = now - startTime s;
                d = swipeDecision 80 0.5 30 diffX diffTime;
                s1 = s\<lparr>transitionOn := True, cursorStyle := Grab\<rparr>;
                s2 = (if fst d
                      then (if snd d > 0 then nextSlide now s1 else previousSlide now s1)
                      else updateSliderPosition now s1)
            in s2\<lparr>isDragging := False\<rparr>))"

definition mouseleave :: "int \<Rightarrow> app \<Rightarrow> app" where
  "mouseleave now s =
     (if isDragging s \<and> \<not> isMobile s
      then (updateSliderPosition now (s\<lparr>transitionOn := True\<rparr>))
             \<lparr>isDragging := False, cursorStyle := Grab\<rparr>
      else s)"

definition resize :: "real \<Rightarrow> app \<Rightarrow> app" where
  "resize innerWidth s = s\<lparr>isMobile := (innerWidth \<le> 767)\<rparr>"

subsection \<open>Keyboard, buttons and the event dispatch\<close>

datatype key = ArrowLeft | ArrowRight | Home | End | OtherKey

definition keydown :: "int \<Rightarrow> key \<Rightarrow> app \<Rightarrow> app" where
  "keydown now k s =
     (case k of
        ArrowLeft \<Rightarrow> previousSlide now s
      | ArrowRight \<Rightarrow> nextSlide now s
      | Home \<Rightarrow> goToSlide now 0 s
      | End \<Rightarrow> goToSlide now (totalSlides s - 1) s
      | OtherKey \<Rightarrow> s)"

text \<open>
  The events that can reach the slider. \<open>setupTouchNavigation\<close> and
  \<open>setupPortfolioSlider\<close> register no listener for \<open>touchcancel\<close> on the slider
  container and none for \<open>blur\<close> on the window, so these two events leave the state as
  it is.
\<close>

datatype event =
    TouchStart "(real \<times> real) list"
  | TouchMove "(real \<times> real) list"
  | TouchEnd
  | TouchCancel
  | MouseDown real
  | MouseMove real
  | MouseUp
  | MouseLeave
  | WindowBlur
  | Resize real
  | KeyDown key
  | ClickPrev
  | ClickNext
  | ClickIndicator nat

fun handle :: "int \<Rightarrow> event \<Rightarrow> app \<Rightarrow> app" where
  "handle now (TouchStart ts) s = touchstart now ts s"
| "handle now (TouchMove ts) s = touchmove ts s"
| "handle now TouchEnd s = touchend now s"
| "handle now TouchCancel s = s"
| "handle now (MouseDown x) s = mousedown now x s"
| "handle now (MouseMove x) s = mousemove x s"
| "handle now MouseUp s = mouseup now s"
| "handle now MouseLeave s = mouseleave now s"
| "handle now WindowBlur s = s"
| "handle now (Resize w) s = resize w s"
| "handle now (KeyDown k) s = keydown now k s"
| "handle now ClickPrev s = previousSlide now s"
| "handle now ClickNext s = nextSlide now s"
| "handle now (ClickIndicator i) s = goToSlide now (int i) s"

text \<open>
  A run of the page: events stamped with the clock value at which their handler runs.
  Before each handler the callbacks that are due by then have fired.
\<close>

fun run :: "(int \<times> event) list \<Rightarrow> app \<Rightarrow> app" where
  "run [] s = s"
| "run ((t, ev) # es) s = run es (handle t ev (fireTimers t s))"

text \<open>
  The state once the page is set up: the constructor's fields, the initial values of the
  local variables of \<open>setupTouchNavigation\<close> (which ends with \<open>enableTransition\<close> and
  the cursor \<open>grab\<close>), then \<open>initPortfolioSlider\<close> with \<open>n\<close> slides found at time
  \<open>now\<close>.
\<close>

definition constructed :: "real \<Rightarrow> real \<Rightarrow> app" where
  "constructed innerWidth width =
     \<lparr>currentSlide = 0, totalSlides = 0, isAnimating = False,
      trackPresent = True, transform = 0, transitionOn = True, cursorStyle = Grab,
      offsetWidth = width, timers = [],
      startX = 0, startY = 0, currentX = 0, currentY = 0, isDragging = False,
      startTime = 0, isMobile = (innerWidth \<le> 767), initialTransform = 0,
      isHorizontalSwipe = False\<rparr>"

definition initPortfolioSlider :: "int \<Rightarrow> nat \<Rightarrow> app \<Rightarrow> app" where
  "initPortfolioSlider now n s =
     (let s1 = s\<lparr>totalSlides := int n\<rparr>
      in if totalSlides s1 > 0 then updateSliderPosition now s1 else s1)"

text \<open>
  A page with \<open>n\<close> slides in a 1024 px wide window and a 300 px wide container, set up at
  time 0, once the callback scheduled by \<open>initPortfolioSlider\<close> has fired at time 500.
\<close>

definition ready :: "nat \<Rightarrow> app" where
  "ready n = fireTimers 500 (initPortfolioSlider 0 n (constructed 1024 300))"

text \<open>
  The index is valid for the slide count: 0 when there are no slides (the constructor's
  value), otherwise within \<open>[0, totalSlides - 1]\<close>.
\<close>

definition indexValid :: "app \<Rightarrow> bool" where
  "indexValid s =
     (if totalSlides s = 0 then currentSlide s = 0
      else 0 \<le> currentSlide s \<and> currentSlide s < totalSlides s)"

subsection \<open>The release rule in the words of the specification\<close>

text \<open>
  The specification's CommitEvaluator: modalities, their constants, the three outcomes
  and the first-match rule over a signed displacement \<open>dx\<close> and an elapsed time \<open>dt\<close>.
  These definitions follow the specification; they are compared with \<open>swipeDecision\<close>
  as the handlers use it.
\<close>

datatype modality = Touch | Mouse

datatype decision = Advance | Retreat | Cancel

fun commitDistance :: "modality \<Rightarrow> real" where
  "commitDistance Touch = 50"
| "commitDistance Mouse = 80"

fun commitVelocity :: "modality \<Rightarrow> real" where
  "commitVelocity Touch = 0.3"
| "commitVelocity Mouse = 0.5"

fun minDisplacement :: "modality \<Rightarrow> real" where
  "minDisplacement Touch = 20"
| "minDisplacement Mouse = 30"

definition specReleaseRule :: "modality \<Rightarrow> real \<Rightarrow> real \<Rightarrow> decision" where
  "specReleaseRule m dx dt =
     (if \<bar>dx\<bar> > commitDistance m then (if dx < 0 then Advance else Retreat)
      else if \<bar>dx\<bar> / dt > commitVelocity m \<and> \<bar>dx\<bar> > minDisplacement m
      then (if dx < 0 then Advance else Retreat)
      else Cancel)"


text \<open>
  A click on the slider that starts at time \<open>t\<close>: the button goes down at x = 100, the
  pointer moves by one pixel and the button is released 50 ms after the press.
\<close>

definition clickAt :: "int \<Rightarrow> (int \<times> event) list" where
  "clickAt t = [(t, MouseDown 100), (t + 10, MouseMove 101), (t + 50, MouseUp)]"

section \<open>Properties\<close>

subsection \<open>Basic facts about the navigation methods\<close>

lemma js_rem_nonneg: "0 \<le> a \<Longrightarrow> 0 < b \<Longrightarrow> js_rem a b = a mod b"
  by (simp add: js_rem_def sgn_if)

lemma updateSliderPosition_index [simp]:
  "currentSlide (updateSliderPosition now s) = currentSlide s"
  "totalSlides (updateSliderPosition now s) = totalSlides s"
  by (simp_all add: updateSliderPosition_def)

lemma nextSlide_total [simp]: "totalSlides (nextSlide now s) = totalSlides s"
  by (simp add: nextSlide_def)

lemma lockRelease_fields [simp]:
  "currentSlide (lockRelease s) = currentSlide s"
  "totalSlides (lockRelease s) = totalSlides s"
  "\<not> isAnimating (lockRelease s)"
  by (simp_all add: lockRelease_def)

lemma nextSlide_unlocked:
  "\<not> isAnimating s \<Longrightarrow> 0 \<le> currentSlide s \<Longrightarrow> 0 < totalSlides s \<Longrightarrow>
   currentSlide (nextSlide now s) = (currentSlide s + 1) mod totalSlides s"
  by (simp add: nextSlide_def js_rem_nonneg)

lemma ready_5: "ready 5 = (constructed 1024 300)\<lparr>totalSlides := 5\<rparr>"
  by (simp add: ready_def fireTimers_def initPortfolioSlider_def constructed_def
      updateSliderPosition_def lockRelease_def)

subsection \<open>Wrap-around of \<open>nextSlide\<close>\<close>

text \<open>
  Calling \<open>nextSlide\<close> at the times \<open>ts\<close>, the flag having been cleared by the timer
  callback before each call, adds the number of calls to the index modulo the slide count.
\<close>

lemma advance_repeated:
  "0 \<le> currentSlide s \<Longrightarrow> currentSlide s < totalSlides s \<Longrightarrow>
   currentSlide (foldl (\<lambda>s t. nextSlide t (lockRelease s)) s ts)
     = (currentSlide s + int (length ts)) mod totalSlides s"
proof (induction ts arbitrary: s)
  case Nil
  then show ?case by simp
next
  case (Cons t ts)
  let ?s1 = "nextSlide t (lockRelease s)"
  have step: "currentSlide ?s1 = (currentSlide s + 1) mod totalSlides s"
    using Cons.prems by (simp add: nextSlide_unlocked)
  have tot: "totalSlides ?s1 = totalSlides s" by simp
  have range: "0 \<le> currentSlide ?s1" "currentSlide ?s1 < totalSlides ?s1"
    using Cons.prems step by simp_all
  have "currentSlide (foldl (\<lambda>s t. nextSlide t (lockRelease s)) ?s1 ts)
          = (currentSlide ?s1 + int (length ts)) mod totalSlides ?s1"
    using Cons.IH [of ?s1] range by simp
  also have "\<dots> = ((currentSlide s + 1) mod totalSlides s + int (length ts)) mod totalSlides s"
    by (simp only: step tot)
  also have "\<dots> = ((currentSlide s + 1) + int (length ts)) mod totalSlides s"
    by (rule mod_add_left_eq)
  also have "\<dots> = (currentSlide s + int (length (t # ts))) mod totalSlides s"
    by (simp add: ac_simps)
  finally show ?case by simp
qed

text \<open>
  Claim C6. With at least one slide, a valid index and the transition lock clear,
  \<open>nextSlide\<close> sets \<open>currentSlide\<close> to \<open>(currentSlide + 1) mod totalSlides\<close>; from the
  last index \<open>totalSlides - 1\<close> it wraps to 0; and \<open>totalSlides\<close> calls from index 0,
  each made with the lock clear, come back to index 0.
\<close>

theorem advance_wraps:
  assumes "1 \<le> totalSlides s" and "0 \<le> currentSlide s" and "currentSlide s < totalSlides s"
  shows "(\<not> isAnimating s \<longrightarrow>
            currentSlide (nextSlide now s) = (currentSlide s + 1) mod totalSlides s)
       \<and> (\<not> isAnimating s \<and> currentSlide s = totalSlides s - 1 \<longrightarrow>
            currentSlide (nextSlide now s) = 0)
       \<and> (currentSlide s = 0 \<and> int (length ts) = totalSlides s \<longrightarrow>
            currentSlide (foldl (\<lambda>s t. nextSlide t (lockRelease s)) s ts) = 0)"
proof (intro conjI impI)
  assume "\<not> isAnimating s"
  then show "currentSlide (nextSlide now s) = (currentSlide s + 1) mod totalSlides s"
    using assms by (simp add: nextSlide_unlocked)
next
  assume "\<not> isAnimating s \<and> currentSlide s = totalSlides s - 1"
  then show "currentSlide (nextSlide now s) = 0"
    using assms by (simp add: nextSlide_unlocked)
next
  assume "currentSlide s = 0 \<and> int (length ts) = totalSlides s"
  then show "currentSlide (foldl (\<lambda>s t. nextSlide t (lockRelease s)) s ts) = 0"
    using assms advance_repeated [of s ts] by simp
qed

theorem advance_wraps_witness:
  "1 \<le> totalSlides (ready 5) \<and> 0 \<le> currentSlide (ready 5)
   \<and> currentSlide (ready 5) < totalSlides (ready 5) \<and> \<not> isAnimating (ready 5)
   \<and> currentSlide (nextSlide 1000 (ready 5)) = 1
   \<and> currentSlide (foldl (\<lambda>s t. nextSlide t (lockRelease s)) (ready 5)
        [1000, 1600, 2200, 2800, 3400]) = 0"
  using advance_wraps [of "ready 5" 1000 "[1000, 1600, 2200, 2800, 3400]"]
  by (simp add: ready_5 constructed_def)

subsection \<open>Validity of the index\<close>

lemma indexValid_nextSlide: "indexValid s \<Longrightarrow> indexValid (nextSlide now s)"
  by (auto simp: indexValid_def nextSlide_def js_rem_nonneg)

lemma indexValid_previousSlide: "indexValid s \<Longrightarrow> indexValid (previousSlide now s)"
  by (auto simp: indexValid_def previousSlide_def)

lemma indexValid_goToSlide:
  "indexValid s \<Longrightarrow> 0 \<le> i \<Longrightarrow> i < totalSlides s \<Longrightarrow> indexValid (goToSlide now i s)"
  by (auto simp: indexValid_def goToSlide_def)

lemma indexValid_update: "indexValid (updateSliderPosition now s) = indexValid s"
  by (simp add: indexValid_def)

lemma indexValid_cong:
  "currentSlide s' = currentSlide s \<Longrightarrow> totalSlides s' = totalSlides s \<Longrightarrow>
   indexValid s' = indexValid s"
  by (simp add: indexValid_def)

lemma touchstart_index [simp]:
  "currentSlide (touchstart now ts s) = currentSlide s"
  "totalSlides (touchstart now ts s) = totalSlides s"
  by (simp_all add: touchstart_def split: list.splits prod.splits)

lemma classify_index [simp]:
  "currentSlide (classify dx dy s) = currentSlide s"
  "totalSlides (classify dx dy s) = totalSlides s"
  by (simp_all add: classify_def Let_def)

lemma touchmove_index [simp]:
  "currentSlide (touchmove ts s) = currentSlide s"
  "totalSlides (touchmove ts s) = totalSlides s"
  by (simp_all add: touchmove_def Let_def split: list.splits prod.splits)

lemma mousedown_index [simp]:
  "currentSlide (mousedown now x s) = currentSlide s"
  "totalSlides (mousedown now x s) = totalSlides s"
  by (simp_all add: mousedown_def)

lemma mousemove_index [simp]:
  "currentSlide (mousemove x s) = currentSlide s"
  "totalSlides (mousemove x s) = totalSlides s"
  by (simp_all add: mousemove_def Let_def)

lemma mouseleave_index [simp]:
  "currentSlide (mouseleave now s) = currentSlide s"
  "totalSlides (mouseleave now s) = totalSlides s"
  by (simp_all add: mouseleave_def)

lemma indexValid_touchend: "indexValid s \<Longrightarrow> indexValid (touchend now s)"
proof -
  assume v: "indexValid s"
  let ?s1 = "s\<lparr>transitionOn := True\<rparr>"
  have v1: "indexValid ?s1" using v by (simp add: indexValid_def)
  have a: "indexValid (nextSlide now ?s1)" by (rule indexValid_nextSlide [OF v1])
  have b: "indexValid (previousSlide now ?s1)" by (rule indexValid_previousSlide [OF v1])
  have c: "indexValid (updateSliderPosition now ?s1)" using v1 by (simp add: indexValid_update)
  have d: "\<And>u. indexValid (u\<lparr>isDragging := False, isHorizontalSwipe := False\<rparr>) = indexValid u"
    by (simp add: indexValid_def)
  show ?thesis
    using v a b c by (simp add: touchend_def Let_def d)
qed

lemma indexValid_mouseup: "indexValid s \<Longrightarrow> indexValid (mouseup now s)"
proof -
  assume v: "indexValid s"
  let ?s1 = "s\<lparr>transitionOn := True, cursorStyle := Grab\<rparr>"
  have v1: "indexValid ?s1" using v by (simp add: indexValid_def)
  have a: "indexValid (nextSlide now ?s1)" by (rule indexValid_nextSlide [OF v1])
  have b: "indexValid (previousSlide now ?s1)" by (rule indexValid_previousSlide [OF v1])
  have c: "indexValid (updateSliderPosition now ?s1)" using v1 by (simp add: indexValid_update)
  have d: "\<And>u. indexValid (u\<lparr>isDragging := False\<rparr>) = indexValid u"
    by (simp add: indexValid_def)
  show ?thesis
    using v a b c by (simp add: mouseup_def Let_def d)
qed

lemma indexValid_keydown: "indexValid s \<Longrightarrow> indexValid (keydown now k s)"
proof (cases k)
  case Home
  assume v: "indexValid s"
  show ?thesis
  proof (cases "totalSlides s = 0")
    case True
    then show ?thesis using v Home by (simp add: keydown_def goToSlide_def)
  next
    case False
    with v have "0 < totalSlides s" by (simp add: indexValid_def)
    then show ?thesis using v Home by (simp add: keydown_def indexValid_goToSlide)
  qed
next
  case End
  assume v: "indexValid s"
  show ?thesis
  proof (cases "totalSlides s = 0")
    case True
    then show ?thesis using v End by (simp add: keydown_def goToSlide_def)
  next
    case False
    with v have "0 < totalSlides s" by (simp add: indexValid_def)
    then show ?thesis using v End by (simp add: keydown_def indexValid_goToSlide)
  qed
qed (simp_all add: keydown_def indexValid_nextSlide indexValid_previousSlide)

lemma indexValid_resize: "indexValid (resize w s) = indexValid s"
  by (simp add: resize_def indexValid_def)

text \<open>
  Claim C1, as the code has it. \<open>goToSlide\<close> has no range check: it never raises, it
  leaves \<open>currentSlide\<close> unchanged only when the lock is engaged or there are no slides
  (or the index is the current one), and otherwise stores the index it is given, whatever
  it is. The index stays valid for the slide count after every event of the slider,
  provided an indicator click carries an index below the slide count; \<open>Home\<close> and
  \<open>End\<close> pass 0 and \<open>totalSlides - 1\<close>.
\<close>

theorem goToSlide_unchecked:
  "currentSlide (goToSlide now i s)
     = (if isAnimating s \<or> totalSlides s = 0 then currentSlide s else i)
   \<and> (indexValid s \<and> (\<forall>k. ev = ClickIndicator k \<longrightarrow> int k < totalSlides s)
        \<longrightarrow> indexValid (handle now ev s))"
proof (intro conjI impI)
  show "currentSlide (goToSlide now i s)
     = (if isAnimating s \<or> totalSlides s = 0 then currentSlide s else i)"
    by (simp add: goToSlide_def)
next
  assume h: "indexValid s \<and> (\<forall>k. ev = ClickIndicator k \<longrightarrow> int k < totalSlides s)"
  then have v: "indexValid s" by simp
  show "indexValid (handle now ev s)"
  proof (cases ev)
    case (ClickIndicator k)
    with h have "int k < totalSlides s" by simp
    then show ?thesis using v ClickIndicator by (simp add: indexValid_goToSlide)
  qed (use v in \<open>simp_all add: indexValid_nextSlide indexValid_previousSlide
         indexValid_touchend indexValid_mouseup indexValid_keydown indexValid_resize
         indexValid_cong [of "touchstart _ _ _"] indexValid_cong [of "touchmove _ _"]
         indexValid_cong [of "mousedown _ _ _"] indexValid_cong [of "mousemove _ _"]
         indexValid_cong [of "mouseleave _ _"]\<close>)
qed

theorem goToSlide_unchecked_witness:
  "indexValid (ready 5)
   \<and> int 3 < totalSlides (ready 5)
   \<and> indexValid (handle 1000 (ClickIndicator 3) (ready 5))
   \<and> currentSlide (goToSlide 1000 3 (ready 5)) = 3"
  using goToSlide_unchecked [of 1000 3 "ready 5" "ClickIndicator 3"]
  by (simp add: ready_5 constructed_def indexValid_def goToSlide_def updateSliderPosition_def)

text \<open>
  Claim C1 as stated fails: with five slides, index 0 and the lock clear, \<open>goToSlide(7)\<close>
  sets \<open>currentSlide\<close> to 7.
\<close>

theorem goToSlide_out_of_range_counterexample:
  "\<not> (0 \<le> (7::int) \<and> 7 < totalSlides (ready 5))
   \<and> currentSlide (ready 5) = 0
   \<and> currentSlide (goToSlide 1000 7 (ready 5)) = 7"
  by (simp add: ready_5 constructed_def goToSlide_def)

subsection \<open>Axis classification of a touch session\<close>

lemma touchmove_keeps_horizontal:
  "isDragging s \<Longrightarrow> isHorizontalSwipe s \<Longrightarrow>
   isDragging (touchmove ts s) \<and> isHorizontalSwipe (touchmove ts s)"
  by (simp add: touchmove_def classify_def Let_def split: list.splits prod.splits)

lemma touchmoves_keep_horizontal:
  "isDragging s \<Longrightarrow> isHorizontalSwipe s \<Longrightarrow>
   isDragging (foldl (\<lambda>s ts. touchmove ts s) s samples)
   \<and> isHorizontalSwipe (foldl (\<lambda>s ts. touchmove ts s) s samples)"
proof (induction samples arbitrary: s)
  case Nil
  then show ?case by simp
next
  case (Cons ts samples)
  have "isDragging (touchmove ts s) \<and> isHorizontalSwipe (touchmove ts s)"
    using Cons.prems by (simp add: touchmove_keeps_horizontal)
  then show ?case using Cons.IH [of "touchmove ts s"] by simp
qed

text \<open>
  Claim C3, as the code has it. The two flags \<open>isDragging\<close> and \<open>isHorizontalSwipe\<close>
  record only the horizontal decision. Once a move sample has set both, no later move
  sample of the session clears them. While neither is set, every move sample with a
  single contact point is classified afresh from its own displacement since the start of
  the session: the session becomes horizontal exactly when \<open>|dx| > |dy|\<close> and
  \<open>|dx| > 15\<close>, whatever the earlier samples were.
\<close>

theorem horizontal_lock_only:
  "(isDragging s \<and> isHorizontalSwipe s \<longrightarrow>
      isDragging (foldl (\<lambda>s ts. touchmove ts s) s samples)
      \<and> isHorizontalSwipe (foldl (\<lambda>s ts. touchmove ts s) s samples))
   \<and> (\<not> isDragging s \<and> \<not> isHorizontalSwipe s \<longrightarrow>
      isHorizontalSwipe (touchmove [(x, y)] s)
        = (\<bar>x - startX s\<bar> > \<bar>y - startY s\<bar> \<and> \<bar>x - startX s\<bar> > 15))"
proof (rule conjI; rule impI)
  assume "isDragging s \<and> isHorizontalSwipe s"
  then show "isDragging (foldl (\<lambda>s ts. touchmove ts s) s samples)
      \<and> isHorizontalSwipe (foldl (\<lambda>s ts. touchmove ts s) s samples)"
    using touchmoves_keep_horizontal [of s samples] by simp
next
  assume "\<not> isDragging s \<and> \<not> isHorizontalSwipe s"
  then show "isHorizontalSwipe (touchmove [(x, y)] s)
        = (\<bar>x - startX s\<bar> > \<bar>y - startY s\<bar> \<and> \<bar>x - startX s\<bar> > 15)"
    by (auto simp: touchmove_def classify_def Let_def)
qed

theorem horizontal_lock_only_witness:
  "isDragging (touchmove [(140, 100)] (touchstart 1000 [(100, 100)] (ready 5)))
   \<and> isHorizontalSwipe (touchmove [(140, 100)] (touchstart 1000 [(100, 100)] (ready 5)))
   \<and> isHorizontalSwipe (foldl (\<lambda>s ts. touchmove ts s)
        (touchmove [(140, 100)] (touchstart 1000 [(100, 100)] (ready 5)))
        [[(141, 180)], [(100, 300)]])
   \<and> \<not> isDragging (touchstart 1000 [(100, 100)] (ready 5))
   \<and> \<not> isHorizontalSwipe (touchstart 1000 [(100, 100)] (ready 5))"
  using horizontal_lock_only
    [of "touchmove [(140, 100)] (touchstart 1000 [(100, 100)] (ready 5))"
        "[[(141, 180)], [(100, 300)]]" 140 100]
    horizontal_lock_only [of "touchstart 1000 [(100, 100)] (ready 5)" "[]" 140 100]
  by (simp add: ready_5 constructed_def touchstart_def touchmove_def classify_def Let_def)

text \<open>
  Claim C3 as stated fails. A session starts at (100, 100). The sample (103, 125) moves
  25 px down and 3 px across: it passes the 10 px threshold and is not horizontal (the
  vertical classification). The next sample (140, 125) is 40 px across and 25 px down,
  and the same session is now horizontal.
\<close>

theorem vertical_reclassified_counterexample:
  "\<not> isHorizontalSwipe (touchmove [(103, 125)] (touchstart 1000 [(100, 100)] (ready 5)))
   \<and> isHorizontalSwipe
        (touchmove [(140, 125)]
          (touchmove [(103, 125)] (touchstart 1000 [(100, 100)] (ready 5))))"
  by (simp add: ready_5 constructed_def touchstart_def touchmove_def classify_def Let_def)

subsection \<open>Release decision\<close>




text \<open>The definitions a concrete run unfolds.\<close>

lemmas model_defs =
  touchstart_def classify_def touchmove_def touchend_def mousedown_def mousemove_def
  mouseup_def mouseleave_def resize_def keydown_def nextSlide_def previousSlide_def
  goToSlide_def updateSliderPosition_def swipeDecision_def velocityExceeds_def
  resistanceTransform_def js_rem_def lockRelease_def fireTimers_def constructed_def
  specReleaseRule_def Let_def


subsection \<open>Boundary resistance\<close>

lemma resistance_shape:
  assumes "1 \<le> n" and "0 < f" and "f < 1"
    and "shown = resistanceTransform f raw n" and "lower = - (of_int (n - 1)) * 100"
  shows "(lower \<le> raw \<and> raw \<le> 0 \<longrightarrow> shown = raw)
       \<and> (0 < raw \<longrightarrow>
            shown = 0 + (raw - 0) * f \<and> shown - 0 = (raw - 0) * f \<and> shown - 0 < raw - 0)
       \<and> (raw < lower \<longrightarrow>
            shown = lower + (raw - lower) * f \<and> lower - shown = (lower - raw) * f
            \<and> lower - shown < lower - raw)"
proof -
  have lo: "lower \<le> 0" using assms(1,5) by simp
  have up: "0 < raw \<Longrightarrow> raw * f < raw" using assms(3) by simp
  have dn: "raw < lower \<Longrightarrow> (lower - raw) * f < lower - raw" using assms(3) by simp
  have sh: "shown = (if raw > 0 then 0 + (raw - 0) * f
                     else if raw < lower then lower + (raw - lower) * f else raw)"
    unfolding assms(4,5) by (simp add: resistanceTransform_def Let_def)
  show ?thesis
  proof (intro conjI impI)
    assume "lower \<le> raw \<and> raw \<le> 0"
    then show "shown = raw" using sh by simp
  next
    assume "0 < raw"
    then show "shown = 0 + (raw - 0) * f" using sh by simp
  next
    assume "0 < raw"
    then show "shown - 0 = (raw - 0) * f" using sh by simp
  next
    assume "0 < raw"
    then show "shown - 0 < raw - 0" using sh up by simp
  next
    assume "raw < lower"
    then show "shown = lower + (raw - lower) * f" using sh lo by simp
  next
    assume r: "raw < lower"
    then have "shown = lower + (raw - lower) * f" using sh lo by simp
    then show "lower - shown = (lower - raw) * f" by (simp add: algebra_simps)
  next
    assume r: "raw < lower"
    then have "shown = lower + (raw - lower) * f" using sh lo by simp
    then have "lower - shown = (lower - raw) * f" by (simp add: algebra_simps)
    then show "lower - shown < lower - raw" using dn [OF r] by simp
  qed
qed

text \<open>
  Claim C4, as the code has it. With at least one slide, let \<open>raw\<close> be
  \<open>initialTransform\<close> plus the drag offset in percent and let the valid range be
  \<open>[-(totalSlides - 1) * 100, 0]\<close>. The offset that \<open>touchmove\<close> writes on a
  horizontal drag (factor 0.3) and that \<open>mousemove\<close> writes on a drag of more than
  5 px (factor 0.2) is \<open>raw\<close> when \<open>raw\<close> is within the range (so exactly the bound
  at zero overshoot), and \<open>bound + (raw - bound) * factor\<close> when \<open>raw\<close> is past a
  bound: the visual excess is the overshoot times the factor, strictly less than the
  overshoot. \<open>initialTransform\<close> is the base offset \<open>- currentSlide * 100\<close> of the
  slide that is current when the session starts. On a mouse drag of at most 5 px
  \<open>mousemove\<close> writes nothing and the track keeps the offset it had.
\<close>

theorem resistance_mapping:
  assumes "1 \<le> totalSlides s" and "0 < offsetWidth s"
  shows "(isDragging (touchmove [(x, y)] s) \<and> isHorizontalSwipe (touchmove [(x, y)] s) \<longrightarrow>
          (let raw = initialTransform s + (x - startX s) / offsetWidth s * 100;
               lower = - (of_int (totalSlides s - 1)) * 100;
               shown = transform (touchmove [(x, y)] s)
           in (lower \<le> raw \<and> raw \<le> 0 \<longrightarrow> shown = raw)
            \<and> (0 < raw \<longrightarrow>
                 shown = 0 + (raw - 0) * 0.3 \<and> shown - 0 = (raw - 0) * 0.3
                 \<and> shown - 0 < raw - 0)
            \<and> (raw < lower \<longrightarrow>
                 shown = lower + (raw - lower) * 0.3 \<and> lower - shown = (lower - raw) * 0.3
                 \<and> lower - shown < lower - raw)))
       \<and> (isDragging s \<and> \<not> isMobile s \<and> \<bar>x - startX s\<bar> > 5 \<longrightarrow>
          (let raw = initialTransform s + (x - startX s) / offsetWidth s * 100;
               lower = - (of_int (totalSlides s - 1)) * 100;
               shown = transform (mousemove x s)
           in (lower \<le> raw \<and> raw \<le> 0 \<longrightarrow> shown = raw)
            \<and> (0 < raw \<longrightarrow>
                 shown = 0 + (raw - 0) * 0.2 \<and> shown - 0 = (raw - 0) * 0.2
                 \<and> shown - 0 < raw - 0)
            \<and> (raw < lower \<longrightarrow>
                 shown = lower + (raw - lower) * 0.2 \<and> lower - shown = (lower - raw) * 0.2
                 \<and> lower - shown < lower - raw)))
       \<and> initialTransform (touchstart now [(x0, y0)] s) = - (of_int (currentSlide s)) * 100
       \<and> (\<not> isMobile s \<longrightarrow>
            initialTransform (mousedown now x0 s) = - (of_int (currentSlide s)) * 100)
       \<and> (isDragging s \<and> \<not> isMobile s \<and> \<bar>x - startX s\<bar> \<le> 5 \<longrightarrow>
            transform (mousemove x s) = transform s)"
proof -
  let ?raw = "initialTransform s + (x - startX s) / offsetWidth s * 100"
  have touch: "(isDragging (touchmove [(x, y)] s) \<and> isHorizontalSwipe (touchmove [(x, y)] s) \<longrightarrow>
          (let raw = initialTransform s + (x - startX s) / offsetWidth s * 100;
               lower = - (of_int (totalSlides s - 1)) * 100;
               shown = transform (touchmove [(x, y)] s)
           in (lower \<le> raw \<and> raw \<le> 0 \<longrightarrow> shown = raw)
            \<and> (0 < raw \<longrightarrow>
                 shown = 0 + (raw - 0) * 0.3 \<and> shown - 0 = (raw - 0) * 0.3
                 \<and> shown - 0 < raw - 0)
            \<and> (raw < lower \<longrightarrow>
                 shown = lower + (raw - lower) * 0.3 \<and> lower - shown = (lower - raw) * 0.3
                 \<and> lower - shown < lower - raw)))"
  proof (rule impI)
    assume h: "isDragging (touchmove [(x, y)] s) \<and> isHorizontalSwipe (touchmove [(x, y)] s)"
    have t: "transform (touchmove [(x, y)] s) = resistanceTransform 0.3 ?raw (totalSlides s)"
      using h by (simp add: touchmove_def Let_def classify_def split: if_splits)
    show "(let raw = initialTransform s + (x - startX s) / offsetWidth s * 100;
               lower = - (of_int (totalSlides s - 1)) * 100;
               shown = transform (touchmove [(x, y)] s)
           in (lower \<le> raw \<and> raw \<le> 0 \<longrightarrow> shown = raw)
            \<and> (0 < raw \<longrightarrow>
                 shown = 0 + (raw - 0) * 0.3 \<and> shown - 0 = (raw - 0) * 0.3
                 \<and> shown - 0 < raw - 0)
            \<and> (raw < lower \<longrightarrow>
                 shown = lower + (raw - lower) * 0.3 \<and> lower - shown = (lower - raw) * 0.3
                 \<and> lower - shown < lower - raw))"
      unfolding Let_def
      by (rule resistance_shape [OF assms(1) _ _ t refl]) simp_all
  qed
  have mouse: "(isDragging s \<and> \<not> isMobile s \<and> \<bar>x - startX s\<bar> > 5 \<longrightarrow>
          (let raw = initialTransform s + (x - startX s) / offsetWidth s * 100;
               lower = - (of_int (totalSlides s - 1)) * 100;
               shown = transform (mousemove x s)
           in (lower \<le> raw \<and> raw \<le> 0 \<longrightarrow> shown = raw)
            \<and> (0 < raw \<longrightarrow>
                 shown = 0 + (raw - 0) * 0.2 \<and> shown - 0 = (raw - 0) * 0.2
                 \<and> shown - 0 < raw - 0)
            \<and> (raw < lower \<longrightarrow>
                 shown = lower + (raw - lower) * 0.2 \<and> lower - shown = (lower - raw) * 0.2
                 \<and> lower - shown < lower - raw)))"
  proof (rule impI)
    assume h: "isDragging s \<and> \<not> isMobile s \<and> \<bar>x - startX s\<bar> > 5"
    have t: "transform (mousemove x s) = resistanceTransform 0.2 ?raw (totalSlides s)"
      using h by (simp add: mousemove_def Let_def)
    show "(let raw = initialTransform s + (x - startX s) / offsetWidth s * 100;
               lower = - (of_int (totalSlides s - 1)) * 100;
               shown = transform (mousemove x s)
           in (lower \<le> raw \<and> raw \<le> 0 \<longrightarrow> shown = raw)
            \<and> (0 < raw \<longrightarrow>
                 shown = 0 + (raw - 0) * 0.2 \<and> shown - 0 = (raw - 0) * 0.2
                 \<and> shown - 0 < raw - 0)
            \<and> (raw < lower \<longrightarrow>
                 shown = lower + (raw - lower) * 0.2 \<and> lower - shown = (lower - raw) * 0.2
                 \<and> lower - shown < lower - raw))"
      unfolding Let_def
      by (rule resistance_shape [OF assms(1) _ _ t refl]) simp_all
  qed
  have st: "initialTransform (touchstart now [(x0, y0)] s) = - (of_int (currentSlide s)) * 100"
    by (simp add: touchstart_def)
  have md: "(\<not> isMobile s \<longrightarrow>
            initialTransform (mousedown now x0 s) = - (of_int (currentSlide s)) * 100)"
    by (simp add: mousedown_def)
  have dz: "(isDragging s \<and> \<not> isMobile s \<and> \<bar>x - startX s\<bar> \<le> 5 \<longrightarrow>
            transform (mousemove x s) = transform s)"
    by (simp add: mousemove_def Let_def)
  show ?thesis
    by (rule conjI [OF touch conjI [OF mouse conjI [OF st conjI [OF md dz]]]])
qed

theorem resistance_mapping_witness:
  "1 \<le> totalSlides (touchstart 1000 [(100, 100)] (ready 5))
   \<and> 0 < offsetWidth (touchstart 1000 [(100, 100)] (ready 5))
   \<and> isDragging (touchmove [(160, 100)] (touchstart 1000 [(100, 100)] (ready 5)))
   \<and> isHorizontalSwipe (touchmove [(160, 100)] (touchstart 1000 [(100, 100)] (ready 5)))
   \<and> initialTransform (touchstart 1000 [(100, 100)] (ready 5))
        + (160 - startX (touchstart 1000 [(100, 100)] (ready 5)))
          / offsetWidth (touchstart 1000 [(100, 100)] (ready 5)) * 100 = 20
   \<and> transform (touchmove [(160, 100)] (touchstart 1000 [(100, 100)] (ready 5))) = 6
   \<and> isDragging (mousedown 1000 100 (ready 5))
   \<and> \<not> isMobile (mousedown 1000 100 (ready 5))
   \<and> \<bar>10 - startX (mousedown 1000 100 (ready 5))\<bar> > 5
   \<and> transform (mousemove 10 (mousedown 1000 100 (ready 5))) = - 30
   \<and> \<bar>103 - startX (mousedown 1000 100 (ready 5))\<bar> \<le> 5
   \<and> transform (mousemove 103 (mousedown 1000 100 (ready 5)))
        = transform (mousedown 1000 100 (ready 5))"
  using resistance_mapping
      [where s = "touchstart 1000 [(100, 100)] (ready 5)" and x = 160 and y = 100
         and now = 1000 and ?x0.0 = 100 and ?y0.0 = 100]
    resistance_mapping
      [where s = "mousedown 1000 100 (ready 5)" and x = 10 and y = 0
         and now = 1000 and ?x0.0 = 100 and ?y0.0 = 100]
    resistance_mapping
      [where s = "mousedown 1000 100 (ready 5)" and x = 103 and y = 0
         and now = 1000 and ?x0.0 = 100 and ?y0.0 = 100]
  by (simp add: ready_5 model_defs)

text \<open>
  Claim C4 as stated fails for a mouse drag of at most 5 px, where \<open>mousemove\<close> writes
  nothing. On slide 0 a press at x = 100 and a move to x = 103 give \<open>raw = 1\<close>, an
  overshoot of 1 past the upper bound, and the track stays at 0 instead of 0.2. On slide
  1 a press at x = 100, a move to x = 160 (the track goes to -80) and a move back to
  x = 103 give \<open>raw = -99\<close>, within the range, and the track stays at -80.
\<close>

theorem mouse_dead_zone_counterexample:
  "isDragging (mousedown 1000 100 (ready 5))
   \<and> \<not> isMobile (mousedown 1000 100 (ready 5))
   \<and> initialTransform (mousedown 1000 100 (ready 5))
        + (103 - startX (mousedown 1000 100 (ready 5)))
          / offsetWidth (mousedown 1000 100 (ready 5)) * 100 = 1
   \<and> transform (mousemove 103 (mousedown 1000 100 (ready 5))) = 0
   \<and> (0::real) + (1 - 0) * 0.2 \<noteq> 0
   \<and> isDragging (mousemove 160 (mousedown 2000 100 (fireTimers 2000 (nextSlide 1000 (ready 5)))))
   \<and> initialTransform (mousemove 160 (mousedown 2000 100 (fireTimers 2000 (nextSlide 1000 (ready 5)))))
        + (103 - startX (mousemove 160 (mousedown 2000 100 (fireTimers 2000 (nextSlide 1000 (ready 5))))))
          / offsetWidth (mousemove 160 (mousedown 2000 100 (fireTimers 2000 (nextSlide 1000 (ready 5)))))
          * 100 = - 99
   \<and> - (of_int (totalSlides (ready 5) - 1)) * 100 \<le> (- 99 :: real)
   \<and> transform (mousemove 103
        (mousemove 160 (mousedown 2000 100 (fireTimers 2000 (nextSlide 1000 (ready 5)))))) = - 80"
  by (simp add: ready_5 model_defs)

subsection \<open>Snap-back\<close>

text \<open>
  Claim C5, as the code has it. When a drag is released and the decision is not to change
  slides, \<open>touchend\<close> and \<open>mouseup\<close> call \<open>updateSliderPosition\<close>: \<open>currentSlide\<close>
  is unchanged and the track returns to the base offset of the current slide, and the
  call sets \<open>isAnimating\<close> and schedules its release 500 ms later, as for a committed
  change.
\<close>

theorem snap_back_engages_lock:
  assumes "trackPresent s" and "isDragging s"
  shows "(isHorizontalSwipe s
          \<and> \<not> fst (swipeDecision 50 0.3 20 (currentX s - startX s) (now - startTime s)) \<longrightarrow>
            currentSlide (touchend now s) = currentSlide s
            \<and> transform (touchend now s) = - (of_int (currentSlide s)) * 100
            \<and> isAnimating (touchend now s)
            \<and> timers (touchend now s) = timers s @ [now + 500])
       \<and> (\<not> isMobile s
          \<and> \<not> fst (swipeDecision 80 0.5 30 (currentX s - startX s) (now - startTime s)) \<longrightarrow>
            currentSlide (mouseup now s) = currentSlide s
            \<and> transform (mouseup now s) = - (of_int (currentSlide s)) * 100
            \<and> isAnimating (mouseup now s)
            \<and> timers (mouseup now s) = timers s @ [now + 500])"
  using assms by (simp add: touchend_def mouseup_def Let_def updateSliderPosition_def)

theorem snap_back_engages_lock_witness:
  "trackPresent (touchmove [(130, 100)] (touchstart 1000 [(100, 100)] (ready 5)))
   \<and> isDragging (touchmove [(130, 100)] (touchstart 1000 [(100, 100)] (ready 5)))
   \<and> isHorizontalSwipe (touchmove [(130, 100)] (touchstart 1000 [(100, 100)] (ready 5)))
   \<and> \<not> fst (swipeDecision 50 0.3 20 (130 - 100) (1400 - 1000))
   \<and> isAnimating (touchend 1400 (touchmove [(130, 100)] (touchstart 1000 [(100, 100)] (ready 5))))
   \<and> timers (touchend 1400 (touchmove [(130, 100)] (touchstart 1000 [(100, 100)] (ready 5))))
        = [1900]"
  using snap_back_engages_lock
    [of "touchmove [(130, 100)] (touchstart 1000 [(100, 100)] (ready 5))" 1400]
  by (simp add: ready_5 model_defs)

text \<open>
  Claim C5 as stated fails. A touch drag of 30 px released after 400 ms is below both
  thresholds (no change of slide); \<open>isAnimating\<close> is false before \<open>touchend\<close> and true
  after it.
\<close>

theorem snap_back_sets_isAnimating_counterexample:
  "isDragging (touchmove [(130, 100)] (touchstart 1000 [(100, 100)] (ready 5)))
   \<and> isHorizontalSwipe (touchmove [(130, 100)] (touchstart 1000 [(100, 100)] (ready 5)))
   \<and> \<not> isAnimating (touchmove [(130, 100)] (touchstart 1000 [(100, 100)] (ready 5)))
   \<and> \<not> fst (swipeDecision 50 0.3 20 (130 - 100) (1400 - 1000))
   \<and> isAnimating (touchend 1400 (touchmove [(130, 100)] (touchstart 1000 [(100, 100)] (ready 5))))"
  by (simp add: ready_5 model_defs)

subsection \<open>Cancellation events\<close>

text \<open>
  Claim C7, as the code has it. For every active drag outside the mobile layout,
  \<open>mouseleave\<close> resolves the session as a snap-back: \<open>isDragging\<close> is cleared, the
  track returns to the base offset of the current slide and \<open>currentSlide\<close> is
  unchanged.
\<close>

theorem mouseleave_snaps_back:
  assumes "isDragging s" and "\<not> isMobile s" and "trackPresent s"
  shows "\<not> isDragging (handle now MouseLeave s)
       \<and> transform (handle now MouseLeave s) = - (of_int (currentSlide s)) * 100
       \<and> currentSlide (handle now MouseLeave s) = currentSlide s"
  using assms by (simp add: mouseleave_def updateSliderPosition_def)

theorem mouseleave_snaps_back_witness:
  "isDragging (mousemove 140 (mousedown 1000 100 (ready 5)))
   \<and> \<not> isMobile (mousemove 140 (mousedown 1000 100 (ready 5)))
   \<and> trackPresent (mousemove 140 (mousedown 1000 100 (ready 5)))
   \<and> transform (mousemove 140 (mousedown 1000 100 (ready 5))) = 8 / 3
   \<and> \<not> isDragging (handle 1200 MouseLeave (mousemove 140 (mousedown 1000 100 (ready 5))))
   \<and> transform (handle 1200 MouseLeave (mousemove 140 (mousedown 1000 100 (ready 5)))) = 0"
  using mouseleave_snaps_back [of "mousemove 140 (mousedown 1000 100 (ready 5))" 1200]
  by (simp add: ready_5 model_defs)

text \<open>
  Claim C7 as stated fails for \<open>touchcancel\<close> and for window blur, which the slider does
  not listen to. After \<open>touchcancel\<close> on a horizontal touch drag of 30 px the session is
  still dragging and the track is still at the drag offset 3 percent, not at the base
  offset 0; after a window blur during a mouse drag of 40 px the session is still
  dragging and the track is still at 8/3 percent.
\<close>

theorem touchcancel_and_blur_ignored_counterexample:
  "isDragging (touchmove [(130, 100)] (touchstart 1000 [(100, 100)] (ready 5)))
   \<and> isDragging (handle 1200 TouchCancel
        (touchmove [(130, 100)] (touchstart 1000 [(100, 100)] (ready 5))))
   \<and> transform (handle 1200 TouchCancel
        (touchmove [(130, 100)] (touchstart 1000 [(100, 100)] (ready 5)))) = 3
   \<and> - (of_int (currentSlide (handle 1200 TouchCancel
        (touchmove [(130, 100)] (touchstart 1000 [(100, 100)] (ready 5)))))) * 100 = (0::real)
   \<and> isDragging (mousemove 140 (mousedown 1000 100 (ready 5)))
   \<and> isDragging (handle 1200 WindowBlur (mousemove 140 (mousedown 1000 100 (ready 5))))
   \<and> transform (handle 1200 WindowBlur (mousemove 140 (mousedown 1000 100 (ready 5)))) = 8 / 3"
  by (simp add: ready_5 model_defs)

subsection \<open>The transition lock over time\<close>

text \<open>
  What the lock does guarantee. While \<open>isAnimating\<close> is set no handler changes
  \<open>currentSlide\<close> and none clears the flag; only a release that falls due clears it.
  So when a slide change is made with no release pending, the flag stays set and the index
  stays put through every run of events within the 500 ms that follow.
\<close>

lemma fireTimers_none_due:
  "\<forall>d\<in>set (timers s). now < d \<Longrightarrow> fireTimers now s = s"
  by (auto simp: fireTimers_def list_ex_iff)

lemma handle_while_locked:
  assumes "trackPresent s" and "isAnimating s"
  shows "trackPresent (handle now ev s) \<and> isAnimating (handle now ev s)
       \<and> currentSlide (handle now ev s) = currentSlide s
       \<and> set (timers (handle now ev s)) \<subseteq> insert (now + 500) (set (timers s))"
proof (cases ev)
  case (TouchStart ts)
  then show ?thesis using assms by (auto simp: touchstart_def split: list.splits)
next
  case (TouchMove ts)
  then show ?thesis using assms
    by (auto simp: touchmove_def classify_def Let_def split: list.splits)
next
  case TouchEnd
  then show ?thesis using assms
    by (auto simp: touchend_def Let_def nextSlide_def previousSlide_def updateSliderPosition_def)
next
  case (MouseDown x)
  then show ?thesis using assms by (auto simp: mousedown_def)
next
  case (MouseMove x)
  then show ?thesis using assms by (auto simp: mousemove_def Let_def)
next
  case MouseUp
  then show ?thesis using assms
    by (auto simp: mouseup_def Let_def nextSlide_def previousSlide_def updateSliderPosition_def)
next
  case MouseLeave
  then show ?thesis using assms by (auto simp: mouseleave_def updateSliderPosition_def)
next
  case (KeyDown k)
  then show ?thesis using assms
    by (cases k) (auto simp: keydown_def nextSlide_def previousSlide_def goToSlide_def)
qed (use assms in \<open>auto simp: resize_def nextSlide_def previousSlide_def goToSlide_def\<close>)

lemma run_while_locked:
  assumes "trackPresent s" and "isAnimating s"
    and "\<forall>d\<in>set (timers s). t0 + 500 \<le> d"
    and "\<forall>(t, ev)\<in>set es. t0 \<le> t \<and> t < t0 + 500"
  shows "isAnimating (run es s) \<and> currentSlide (run es s) = currentSlide s"
  using assms
proof (induction es arbitrary: s)
  case Nil
  then show ?case by simp
next
  case (Cons e es)
  obtain t ev where e: "e = (t, ev)" by (cases e)
  have t: "t0 \<le> t" "t < t0 + 500" using Cons.prems(4) e by auto
  have nf: "fireTimers t s = s"
    using Cons.prems(3) t by (intro fireTimers_none_due) auto
  let ?s1 = "handle t ev s"
  have h: "trackPresent ?s1 \<and> isAnimating ?s1 \<and> currentSlide ?s1 = currentSlide s
       \<and> set (timers ?s1) \<subseteq> insert (t + 500) (set (timers s))"
    using handle_while_locked [OF Cons.prems(1,2)] by simp
  have tm: "\<forall>d\<in>set (timers ?s1). t0 + 500 \<le> d"
    using h Cons.prems(3) t by auto
  have rest: "\<forall>(t, ev)\<in>set es. t0 \<le> t \<and> t < t0 + 500"
    using Cons.prems(4) by simp
  have "isAnimating (run es ?s1) \<and> currentSlide (run es ?s1) = currentSlide ?s1"
    using Cons.IH [of ?s1] h tm rest by simp
  then show ?case using e nf h by simp
qed

lemma lock_holds_without_stale_timers:
  assumes "trackPresent s" and "\<not> isAnimating s" and "0 < totalSlides s" and "timers s = []"
    and "\<forall>(t, ev)\<in>set es. t0 \<le> t \<and> t < t0 + 500"
  shows "isAnimating (run es (nextSlide t0 s))
       \<and> currentSlide (run es (nextSlide t0 s)) = currentSlide (nextSlide t0 s)"
proof (rule run_while_locked [where ?t0.0 = t0])
  show "trackPresent (nextSlide t0 s)" using assms by (simp add: nextSlide_def updateSliderPosition_def)
  show "isAnimating (nextSlide t0 s)" using assms by (simp add: nextSlide_def updateSliderPosition_def)
  show "\<forall>d\<in>set (timers (nextSlide t0 s)). t0 + 500 \<le> d"
    using assms by (simp add: nextSlide_def updateSliderPosition_def)
  show "\<forall>(t, ev)\<in>set es. t0 \<le> t \<and> t < t0 + 500" by (rule assms(5))
qed

text \<open>
  Claim C8 fails on the code. Every call of \<open>updateSliderPosition\<close> schedules its own
  release and none is cancelled, and a snap-back calls it while the lock is already
  engaged. Two clicks at 1000 and 1400 snap back at 1050 and 1450 and leave releases
  pending for 1550 and 1950. \<open>ArrowRight\<close> at 1600 finds the lock released, moves to
  slide 1 and engages the lock; the release left over for 1950 clears it 350 ms later,
  and \<open>ArrowRight\<close> at 2000 moves to slide 2, 400 ms after the previous change.
\<close>

theorem stale_timer_unlocks_early:
  "currentSlide (run (clickAt 1000 @ clickAt 1400) (ready 5)) = 0
   \<and> timers (run (clickAt 1000 @ clickAt 1400) (ready 5)) = [1550, 1950]
   \<and> currentSlide (run (clickAt 1000 @ clickAt 1400 @ [(1600, KeyDown ArrowRight)]) (ready 5)) = 1
   \<and> isAnimating (run (clickAt 1000 @ clickAt 1400 @ [(1600, KeyDown ArrowRight)]) (ready 5))
   \<and> \<not> isAnimating (fireTimers 1950
        (run (clickAt 1000 @ clickAt 1400 @ [(1600, KeyDown ArrowRight)]) (ready 5)))
   \<and> currentSlide (run (clickAt 1000 @ clickAt 1400 @
        [(1600, KeyDown ArrowRight), (2000, KeyDown ArrowRight)]) (ready 5)) = 2"
  by (simp add: clickAt_def ready_5 model_defs)


subsection \<open>A press and release without a move\<close>

text \<open>
  Claim C9. Outside the mobile layout \<open>mousedown\<close> sets \<open>startX\<close> and leaves
  \<open>currentX\<close> as it was, so a release with no \<open>mousemove\<close> in between decides on the
  displacement \<open>currentX - x\<close> of the state before the press: the last pointer position
  of an earlier gesture, or 0 on a fresh page. On a fresh page with five slides a press
  at x = 200 and its release evaluate a displacement of -200, beyond the threshold 80,
  and \<open>currentSlide\<close> changes from 0 to 1.
\<close>

theorem motionless_click_stale_currentX:
  "(\<not> isMobile s \<longrightarrow>
      currentX (mousedown t1 x s) - startX (mousedown t1 x s) = currentX s - x
      \<and> mouseup t2 (mousedown t1 x s) =
          (let s0 = mousedown t1 x s;
               d = swipeDecision 80 0.5 30 (currentX s - x) (t2 - t1);
               s1 = s0\<lparr>transitionOn := True, cursorStyle := Grab\<rparr>;
               s2 = (if fst d
                     then (if snd d > 0 then nextSlide t2 s1 else previousSlide t2 s1)
                     else updateSliderPosition t2 s1)
           in s2\<lparr>isDragging := False\<rparr>))
   \<and> currentX (ready 5) = 0
   \<and> \<bar>currentX (ready 5) - 200\<bar> > 80
   \<and> currentSlide (ready 5) = 0
   \<and> currentSlide (mouseup 1100 (mousedown 1000 200 (ready 5))) = 1"
proof (rule conjI)
  show "\<not> isMobile s \<longrightarrow>
      currentX (mousedown t1 x s) - startX (mousedown t1 x s) = currentX s - x
      \<and> mouseup t2 (mousedown t1 x s) =
          (let s0 = mousedown t1 x s;
               d = swipeDecision 80 0.5 30 (currentX s - x) (t2 - t1);
               s1 = s0\<lparr>transitionOn := True, cursorStyle := Grab\<rparr>;
               s2 = (if fst d
                     then (if snd d > 0 then nextSlide t2 s1 else previousSlide t2 s1)
                     else updateSliderPosition t2 s1)
           in s2\<lparr>isDragging := False\<rparr>)"
    by (simp add: mousedown_def mouseup_def Let_def)
next
  show "currentX (ready 5) = 0
   \<and> \<bar>currentX (ready 5) - 200\<bar> > 80
   \<and> currentSlide (ready 5) = 0
   \<and> currentSlide (mouseup 1100 (mousedown 1000 200 (ready 5))) = 1"
    by (simp add: ready_5 model_defs)
qed

theorem motionless_click_stale_currentX_witness:
  "\<not> isMobile (mouseup 1300 (mousemove 300 (mousedown 1000 100 (ready 5))))
   \<and> currentX (mouseup 1300 (mousemove 300 (mousedown 1000 100 (ready 5)))) = 300
   \<and> currentSlide (mouseup 1300 (mousemove 300 (mousedown 1000 100 (ready 5)))) = 4
   \<and> currentSlide (mouseup 2100 (mousedown 2000 150
        (fireTimers 2000 (mouseup 1300 (mousemove 300 (mousedown 1000 100 (ready 5))))))) = 3"
  using motionless_click_stale_currentX
    [of "fireTimers 2000 (mouseup 1300 (mousemove 300 (mousedown 1000 100 (ready 5))))"
        2000 150 2100]
  by (simp add: ready_5 model_defs)

subsection \<open>A commit attempted while the lock is engaged\<close>

text \<open>
  Claim C10. When a horizontal touch drag ends with a decision to change slides while
  \<open>isAnimating\<close> is true, \<open>nextSlide\<close> or \<open>previousSlide\<close> returns at once:
  \<open>currentSlide\<close> is unchanged, \<open>updateSliderPosition\<close> is not called (no release
  is scheduled) and the track keeps the offset it had, which is the resisted drag offset
  that the last \<open>touchmove\<close> wrote.
\<close>

theorem locked_commit_leaves_drag_offset:
  assumes "isDragging s" and "isHorizontalSwipe s" and "isAnimating s"
    and "fst (swipeDecision 50 0.3 20 (currentX s - startX s) (now - startTime s))"
  shows "currentSlide (touchend now s) = currentSlide s
       \<and> transform (touchend now s) = transform s
       \<and> timers (touchend now s) = timers s
       \<and> (\<forall>x y s0. s = touchmove [(x, y)] s0 \<longrightarrow>
            transform (touchend now s)
              = resistanceTransform 0.3
                  (initialTransform s0 + (x - startX s0) / offsetWidth s0 * 100)
                  (totalSlides s0))"
proof -
  have e: "touchend now s = s\<lparr>transitionOn := True, isDragging := False, isHorizontalSwipe := False\<rparr>"
    using assms by (simp add: touchend_def Let_def nextSlide_def previousSlide_def)
  have m: "\<And>x y s0. s = touchmove [(x, y)] s0 \<Longrightarrow>
            transform s = resistanceTransform 0.3
                  (initialTransform s0 + (x - startX s0) / offsetWidth s0 * 100)
                  (totalSlides s0)"
  proof -
    fix x y s0 assume eq: "s = touchmove [(x, y)] s0"
    have "isDragging (touchmove [(x, y)] s0) \<and> isHorizontalSwipe (touchmove [(x, y)] s0)"
      using assms(1,2) eq by simp
    then show "transform s = resistanceTransform 0.3
                  (initialTransform s0 + (x - startX s0) / offsetWidth s0 * 100)
                  (totalSlides s0)"
      unfolding eq by (simp add: touchmove_def Let_def classify_def split: if_splits)
  qed
  have t: "transform (touchend now s) = transform s" by (simp add: e)
  have "\<forall>x y s0. s = touchmove [(x, y)] s0 \<longrightarrow>
            transform (touchend now s)
              = resistanceTransform 0.3
                  (initialTransform s0 + (x - startX s0) / offsetWidth s0 * 100)
                  (totalSlides s0)"
    unfolding t using m by blast
  moreover have "currentSlide (touchend now s) = currentSlide s"
    and "timers (touchend now s) = timers s"
    by (simp_all add: e)
  ultimately show ?thesis using t by blast
qed

theorem locked_commit_leaves_drag_offset_witness:
  "isDragging (touchmove [(30, 100)] (touchstart 1100 [(100, 100)] (nextSlide 1000 (ready 5))))
   \<and> isHorizontalSwipe (touchmove [(30, 100)] (touchstart 1100 [(100, 100)] (nextSlide 1000 (ready 5))))
   \<and> isAnimating (touchmove [(30, 100)] (touchstart 1100 [(100, 100)] (nextSlide 1000 (ready 5))))
   \<and> fst (swipeDecision 50 0.3 20 (30 - 100) (1300 - 1100))
   \<and> currentSlide (touchend 1300
        (touchmove [(30, 100)] (touchstart 1100 [(100, 100)] (nextSlide 1000 (ready 5))))) = 1
   \<and> transform (touchend 1300
        (touchmove [(30, 100)] (touchstart 1100 [(100, 100)] (nextSlide 1000 (ready 5)))))
        = - 370 / 3"
  using locked_commit_leaves_drag_offset
    [of "touchmove [(30, 100)] (touchstart 1100 [(100, 100)] (nextSlide 1000 (ready 5)))" 1300]
  by (simp add: ready_5 model_defs)

end
